theory Spec2Isabelle
  imports Complex_Main
begin

section \<open>Text and regular expressions\<close>

text \<open>
  Message text is a \<^typ>\<open>string\<close>: one \<^typ>\<open>char\<close> per code point below 256.
  Python floats are modelled as \<^typ>\<open>real\<close> (no rounding, no overflow).

  The patterns of the source are values of \<open>rx\<close>, read by a backtracking matcher with the
  priorities of Python's \<open>re\<close>: the leftmost start wins, the left alternative is tried
  first, a greedy repetition takes the longest run first and a lazy one the shortest.
  Repetition is only needed over single characters. \<open>Never\<close> stands for a literal of
  the source whose code points lie beyond 255 (an emoji, a bullet, a long dash): it
  matches no text of the model.
\<close>

definition upper_az :: string where
  "upper_az = ''ABCDEFGHIJKLMNOPQRSTUVWXYZ''"

definition lower_az :: string where
  "lower_az = ''abcdefghijklmnopqrstuvwxyz''"

definition digits09 :: string where
  "digits09 = ''0123456789''"

definition py_space :: string where
  "py_space = [CHR 0x09, CHR 0x0A, CHR 0x0B, CHR 0x0C, CHR 0x0D, CHR 0x1C, CHR 0x1D,
               CHR 0x1E, CHR 0x1F, CHR 0x20, CHR 0x85, CHR 0xA0]"

definition latin_word :: string where
  "latin_word = [CHR 0xAA, CHR 0xB2, CHR 0xB3, CHR 0xB5, CHR 0xB9, CHR 0xBA, CHR 0xBC,
                 CHR 0xBD, CHR 0xBE, CHR 0xD7, CHR 0xF7]"

definition is_word :: "char \<Rightarrow> bool" where
  "is_word c = (if of_char c < (0xC0::nat)
     then List.member (upper_az @ lower_az @ digits09 @ ''_'' @ take 9 latin_word) c
     else \<not> List.member (drop 9 latin_word) c)"

definition to_lower :: "char \<Rightarrow> char" where
  "to_lower c = (case map_of (zip upper_az lower_az) c of Some l \<Rightarrow> l | None \<Rightarrow> c)"

definition to_upper :: "char \<Rightarrow> char" where
  "to_upper c = (case map_of (zip lower_az upper_az) c of Some u \<Rightarrow> u | None \<Rightarrow> c)"

datatype cls =
    Dot
  | DotAll
  | In string
  | NotIn string
  | LitC char

fun cls_ok :: "cls \<Rightarrow> char \<Rightarrow> bool" where
  "cls_ok Dot c = (c \<noteq> CHR 0x0A)"
| "cls_ok DotAll c = True"
| "cls_ok (In cs) c = List.member cs c"
| "cls_ok (NotIn cs) c = (\<not> List.member cs c)"
| "cls_ok (LitC p) c = (c = p)"

text \<open>
  A literal character under \<open>re.IGNORECASE\<close> stands for its two cases (the pattern
  literals are ASCII, and below code point 256 no other character folds onto them).
\<close>

definition LitI :: "char \<Rightarrow> cls" where
  "LitI p = In [to_lower p, to_upper p]"

datatype rx =
    Eps
  | Never
  | Chr cls
  | Seq rx rx
  | Alt rx rx
  | Star cls
  | LazyStar cls
  | Grp nat rx
  | CloseG nat string
  | WordB
  | EndLine
  | LookAhead rx

type_synonym caps = "(nat \<times> string) list"

fun rsz :: "rx \<Rightarrow> nat" where
  "rsz (Seq a b) = Suc (rsz a + rsz b)"
| "rsz (Alt a b) = Suc (rsz a + rsz b)"
| "rsz (Grp n r) = Suc (Suc (rsz r))"
| "rsz (LookAhead r) = Suc (rsz r)"
| "rsz r = 1"

definition at_boundary :: "char option \<Rightarrow> string \<Rightarrow> bool" where
  "at_boundary prev s =
     ((case prev of None \<Rightarrow> False | Some c \<Rightarrow> is_word c)
        \<noteq> (case s of [] \<Rightarrow> False | c # _ \<Rightarrow> is_word c))"

text \<open>
  \<open>ms rs prev s caps\<close> matches the sequence \<open>rs\<close> at the head of \<open>s\<close>; \<open>prev\<close> is the
  character before \<open>s\<close> (for \<open>\b\<close>), \<open>caps\<close> the groups captured so far. The result is
  the captures and the text left after the match.
\<close>

function ms :: "rx list \<Rightarrow> char option \<Rightarrow> string \<Rightarrow> caps \<Rightarrow> (caps \<times> string) option" where
  "ms [] prev s caps = Some (caps, s)"
| "ms (Eps # rs) prev s caps = ms rs prev s caps"
| "ms (Never # rs) prev s caps = None"
| "ms (Chr k # rs) prev s caps =
     (case s of [] \<Rightarrow> None
      | c # cs \<Rightarrow> if cls_ok k c then ms rs (Some c) cs caps else None)"
| "ms (Seq a b # rs) prev s caps = ms (a # b # rs) prev s caps"
| "ms (Alt a b # rs) prev s caps =
     (case ms (a # rs) prev s caps of Some res \<Rightarrow> Some res
      | None \<Rightarrow> ms (b # rs) prev s caps)"
| "ms (Star k # rs) prev s caps =
     (case s of [] \<Rightarrow> ms rs prev s caps
      | c # cs \<Rightarrow>
          if cls_ok k c
          then (case ms (Star k # rs) (Some c) cs caps of Some res \<Rightarrow> Some res
                | None \<Rightarrow> ms rs prev s caps)
          else ms rs prev s caps)"
| "ms (LazyStar k # rs) prev s caps =
     (case ms rs prev s caps of Some res \<Rightarrow> Some res
      | None \<Rightarrow>
          (case s of [] \<Rightarrow> None
           | c # cs \<Rightarrow> if cls_ok k c then ms (LazyStar k # rs) (Some c) cs caps else None))"
| "ms (Grp n r # rs) prev s caps = ms (r # CloseG n s # rs) prev s caps"
| "ms (CloseG n start # rs) prev s caps =
     ms rs prev s ((n, take (length start - length s) start) # caps)"
| "ms (WordB # rs) prev s caps = (if at_boundary prev s then ms rs prev s caps else None)"
| "ms (EndLine # rs) prev s caps =
     (case s of [] \<Rightarrow> ms rs prev s caps
      | c # _ \<Rightarrow> if c = CHR 0x0A then ms rs prev s caps else None)"
| "ms (LookAhead r # rs) prev s caps =
     (case ms [r] prev s caps of None \<Rightarrow> None
      | Some (caps', _) \<Rightarrow> ms rs prev s caps')"
  by pat_completeness auto
termination
  by (relation "measures [\<lambda>(rs, prev, s, caps). length s,
                          \<lambda>(rs, prev, s, caps). sum_list (map rsz rs)]") auto

text \<open>\<open>pattern.search(text)\<close>: the first start position at which the pattern matches.\<close>

fun search_from :: "rx \<Rightarrow> char option \<Rightarrow> string \<Rightarrow> (caps \<times> string) option" where
  "search_from r prev s =
     (case ms [r] prev s [] of Some res \<Rightarrow> Some res
      | None \<Rightarrow> (case s of [] \<Rightarrow> None | c # cs \<Rightarrow> search_from r (Some c) cs))"

definition re_search :: "rx \<Rightarrow> string \<Rightarrow> caps option" where
  "re_search r s = map_option fst (search_from r None s)"

text \<open>\<open>m.group(n)\<close>: \<open>None\<close> when the group took no part in the match.\<close>

definition group :: "caps \<Rightarrow> nat \<Rightarrow> string option" where
  "group caps n = map_of caps n"

text \<open>
  A group that every match of its pattern passes through always took part; it is read
  with \<open>grp\<close>.
\<close>

definition grp :: "caps \<Rightarrow> nat \<Rightarrow> string" where
  "grp caps n = (case group caps n of Some g \<Rightarrow> g | None \<Rightarrow> [])"

subsection \<open>Pattern notation\<close>

fun lit :: "string \<Rightarrow> rx" where
  "lit [] = Eps"
| "lit [c] = Chr (LitC c)"
| "lit (c # cs) = Seq (Chr (LitC c)) (lit cs)"

fun liti :: "string \<Rightarrow> rx" where
  "liti [] = Eps"
| "liti [c] = Chr (LitI c)"
| "liti (c # cs) = Seq (Chr (LitI c)) (liti cs)"

fun seqs :: "rx list \<Rightarrow> rx" where
  "seqs [] = Eps"
| "seqs [r] = r"
| "seqs (r # rs) = Seq r (seqs rs)"

fun alts :: "rx list \<Rightarrow> rx" where
  "alts [] = Never"
| "alts [r] = r"
| "alts (r # rs) = Alt r (alts rs)"

definition Opt :: "rx \<Rightarrow> rx" where
  "Opt r = Alt r Eps"

definition Plus :: "cls \<Rightarrow> rx" where
  "Plus k = Seq (Chr k) (Star k)"

definition LazyPlus :: "cls \<Rightarrow> rx" where
  "LazyPlus k = Seq (Chr k) (LazyStar k)"

primrec UpTo :: "nat \<Rightarrow> cls \<Rightarrow> rx" where
  "UpTo 0 k = Eps"
| "UpTo (Suc n) k = Alt (Seq (Chr k) (UpTo n k)) Eps"

definition Rep :: "nat \<Rightarrow> nat \<Rightarrow> cls \<Rightarrow> rx" where
  "Rep lo hi k = seqs (replicate lo (Chr k) @ [UpTo (hi - lo) k])"

definition ws :: cls where
  "ws = In py_space"

definition dg :: cls where
  "dg = In digits09"

text \<open>\<open>[0-9]+\.?[0-9]*\<close>, the number shape shared by all price patterns.\<close>

definition number :: rx where
  "number = seqs [Plus dg, Opt (Chr (LitC CHR ''.'')), Star dg]"

text \<open>
  \<open>float(s)\<close> on a string of that shape: digits, then optionally a dot and more digits.
  Any other string is a \<open>ValueError\<close> (\<open>None\<close>).
\<close>

definition digit_val :: "char \<Rightarrow> int" where
  "digit_val c = (case map_of (zip digits09 [0, 1, 2, 3, 4, 5, 6, 7, 8, 9]) c of
                    Some d \<Rightarrow> d | None \<Rightarrow> 0)"

text \<open>\<open>int(s)\<close> on a string of decimal digits.\<close>

definition int_of_digits :: "string \<Rightarrow> int" where
  "int_of_digits ds = foldl (\<lambda>acc c. 10 * acc + digit_val c) 0 ds"

definition py_float :: "string \<Rightarrow> real option" where
  "py_float s =
     (let ip = takeWhile (\<lambda>c. c \<noteq> CHR ''.'') s;
          fp = drop (Suc (length ip)) s
      in if ip \<noteq> [] \<and> list_all (List.member digits09) ip \<and> list_all (List.member digits09) fp
         then Some (of_int (int_of_digits ip) + of_int (int_of_digits fp) / 10 ^ length fp)
         else None)"

section \<open>Signal parser (\<open>parsers/gauls_signal_parser.py\<close>)\<close>

text \<open>The compiled patterns of \<open>GaulsSignalParser.__init__\<close>; all are \<open>re.IGNORECASE\<close>.\<close>

definition az_i :: cls where
  "az_i = In (upper_az @ lower_az)"

definition dollar_opt :: rx where
  "dollar_opt = Opt (Chr (LitC CHR ''$''))"

definition pat_symbol :: rx where
  "pat_symbol = seqs [dollar_opt, Grp 1 (Rep 2 10 az_i), Star ws, Star Dot,
                      alts [liti ''Setup'', liti ''buying'', liti ''Buying'']]"

definition pat_entry_price :: rx where
  "pat_entry_price =
     seqs [alts [liti ''Entry'', liti ''ENTRY''], Star ws, Chr (LitC CHR '':''), Star ws, dollar_opt,
           Grp 1 (alts [number, liti ''CMP'']),
           Opt (seqs [Plus ws, liti ''down'', Plus ws, liti ''to'', Plus ws, dollar_opt,
                      Grp 2 number])]"

definition pat_entry_hint :: rx where
  "pat_entry_hint =
     seqs [alts [liti ''Entry'', liti ''ENTRY''], Star ws, Chr (LitC CHR '':''), Star ws, dollar_opt,
           number, Star ws, Chr (LitC CHR ''(''), Grp 1 (Plus (NotIn '')'')),
           Chr (LitC CHR '')'')]"

definition pat_take_profit :: rx where
  "pat_take_profit =
     seqs [alts [liti ''TP'', liti ''Target'', liti ''TARGET''], Star ws, Chr (LitC CHR '':''),
           Star ws, dollar_opt, Grp 1 number, Grp 2 (Opt (Chr (LitI CHR ''x'')))]"

definition pat_stop_loss :: rx where
  "pat_stop_loss =
     seqs [alts [liti ''SL'', liti ''Invalidation''], Star ws, Chr (LitC CHR '':''), Star ws,
           dollar_opt, Grp 1 number]"

definition pat_risk_reward :: rx where
  "pat_risk_reward = seqs [liti ''RR'', Star ws, Chr (LitC CHR '':''), Star ws, Grp 1 number]"

definition pat_buying_setup :: rx where
  "pat_buying_setup =
     alts [seqs [liti ''buying'', Plus ws, liti ''setup''],
           seqs [liti ''Buying'', Plus ws, liti ''Setup'']]"

text \<open>The inline pattern of the multiplier branch, \<open>Entry:\s*(..)-(..)\<close>, case-sensitive.\<close>

definition pat_entry_range :: rx where
  "pat_entry_range =
     seqs [lit ''Entry:'', Star ws, Grp 1 number, Chr (LitC CHR ''-''), Grp 2 number]"

datatype entry_type = Market | Limit

text \<open>
  \<open>entry_hint\<close> is either text taken from the message or the formatted note of the
  conservative limit (kept as its two numbers: price and stated target).
\<close>

datatype hint = HintText string | Conservative real real

record signal =
  symbol :: string
  side :: string
  entry_price :: "real option"
  entry_type :: entry_type
  entry_hint :: "hint option"
  stop_loss :: "real option"
  take_profit :: "real option"
  risk_reward :: "real option"
  conviction :: string
  raw_text :: string
  source :: string
  original_target :: "real option"

text \<open>Python truthiness of an optional number: neither \<open>None\<close> nor zero.\<close>

definition truthy :: "real option \<Rightarrow> bool" where
  "truthy v = (case v of None \<Rightarrow> False | Some x \<Rightarrow> x \<noteq> 0)"

definition py_strip :: "string \<Rightarrow> string" where
  "py_strip s = rev (dropWhile (List.member py_space) (rev (dropWhile (List.member py_space) s)))"

definition conservative_buffer :: real where
  "conservative_buffer = 0.0063"

text \<open>
  The steps of \<open>parse_signal\<close> in source order. Each takes the signal built so far and
  returns the updated one; \<open>None\<close> is an exception reaching the \<open>except\<close> clause.
\<close>

definition extract_entry :: "string \<Rightarrow> signal \<Rightarrow> signal option" where
  "extract_entry text sg =
     (case re_search pat_entry_price text of
        None \<Rightarrow> Some sg
      | Some m \<Rightarrow>
          let entry_str = grp m 1 in
          if map to_upper entry_str = ''CMP''
          then (case group m 2 of
                  None \<Rightarrow> Some (sg\<lparr>entry_type := Market\<rparr>)
                | Some secondary_price \<Rightarrow>
                    if secondary_price = [] then Some (sg\<lparr>entry_type := Market\<rparr>)
                    else (case py_float secondary_price of
                            None \<Rightarrow> None
                          | Some target_price \<Rightarrow>
                              let conservative_price = target_price * (1 + conservative_buffer)
                              in Some (sg\<lparr>entry_type := Limit,
                                           entry_price := Some conservative_price,
                                           entry_hint := Some (Conservative conservative_price
                                                                 target_price),
                                           original_target := Some target_price\<rparr>)))
          else (case py_float entry_str of
                  None \<Rightarrow> None
                | Some v \<Rightarrow> Some (sg\<lparr>entry_price := Some v, entry_type := Limit\<rparr>)))"

definition extract_hint :: "string \<Rightarrow> signal \<Rightarrow> signal option" where
  "extract_hint text sg =
     (case re_search pat_entry_hint text of
        None \<Rightarrow> Some sg
      | Some m \<Rightarrow> Some (sg\<lparr>entry_hint := Some (HintText (py_strip (grp m 1)))\<rparr>))"

definition extract_stop_loss :: "string \<Rightarrow> signal \<Rightarrow> signal option" where
  "extract_stop_loss text sg =
     (case re_search pat_stop_loss text of
        None \<Rightarrow> Some sg
      | Some m \<Rightarrow>
          (case py_float (grp m 1) of
             None \<Rightarrow> None
           | Some v \<Rightarrow> Some (sg\<lparr>stop_loss := Some v\<rparr>)))"

definition extract_take_profit :: "string \<Rightarrow> signal \<Rightarrow> signal option" where
  "extract_take_profit text sg =
     (case re_search pat_take_profit text of
        None \<Rightarrow> Some sg
      | Some m \<Rightarrow>
          (case py_float (grp m 1) of
             None \<Rightarrow> None
           | Some val \<Rightarrow>
               let is_multiplier = (grp m 2 = ''x'') in
               if is_multiplier
               then (if truthy (entry_price sg)
                     then Some (sg\<lparr>take_profit := Some (the (entry_price sg) * val)\<rparr>)
                     else (case re_search pat_entry_range text of
                             Some rm \<Rightarrow>
                               (case (py_float (grp rm 1), py_float (grp rm 2)) of
                                  (Some entry_low, Some entry_high) \<Rightarrow>
                                    let entry_mid = (entry_low + entry_high) / 2
                                    in Some (sg\<lparr>take_profit := Some (entry_mid * val),
                                                 entry_price := Some entry_mid,
                                                 risk_reward := Some val\<rparr>)
                                | _ \<Rightarrow> None)
                           | None \<Rightarrow>
                               Some (sg\<lparr>take_profit := Some val, risk_reward := Some val\<rparr>)))
               else Some (sg\<lparr>take_profit := Some val\<rparr>)))"

definition extract_risk_reward :: "string \<Rightarrow> signal \<Rightarrow> signal option" where
  "extract_risk_reward text sg =
     (case re_search pat_risk_reward text of
        None \<Rightarrow> Some sg
      | Some m \<Rightarrow>
          (case py_float (grp m 1) of
             None \<Rightarrow> None
           | Some v \<Rightarrow> Some (sg\<lparr>risk_reward := Some v\<rparr>)))"

definition initial_signal :: "string \<Rightarrow> string \<Rightarrow> signal" where
  "initial_signal symb text =
     \<lparr>symbol = symb @ ''/USDT'', side = ''buy'', entry_price = None, entry_type = Market,
      entry_hint = None, stop_loss = None, take_profit = None, risk_reward = None,
      conviction = ''high'', raw_text = text, source = ''gauls_copy'', original_target = None\<rparr>"

definition extract_all :: "string \<Rightarrow> signal \<Rightarrow> signal option" where
  "extract_all text sg =
     Option.bind (Option.bind (Option.bind (Option.bind (extract_entry text sg)
       (extract_hint text)) (extract_stop_loss text)) (extract_take_profit text))
       (extract_risk_reward text)"

definition parse_signal :: "string \<Rightarrow> signal option" where
  "parse_signal text =
     (if re_search pat_buying_setup text = None then None
      else case re_search pat_symbol text of
             None \<Rightarrow> None
           | Some sm \<Rightarrow>
               (case extract_all text (initial_signal (grp sm 1) text) of
                  None \<Rightarrow> None
                | Some sg \<Rightarrow>
                    if symbol sg \<noteq> [] \<and> truthy (stop_loss sg) \<and> truthy (take_profit sg)
                    then Some sg else None))"

section \<open>Update patterns (\<open>processors/gauls_trade_update_processor.py\<close>)\<close>

text \<open>
  \<open>self.update_patterns\<close>. All but \<open>symbol_line\<close> are \<open>re.IGNORECASE\<close>; \<open>symbol_line\<close> is
  \<open>re.MULTILINE | re.DOTALL\<close> and case-sensitive. \<open>\d\<close> is \<open>[0-9]\<close> below code point 256.
\<close>

definition pat_r_action :: rx where
  "pat_r_action =
     seqs [Grp 1 number, liti ''R'', Plus ws,
           Grp 2 (alts [liti ''locked'', liti ''done'', liti ''reached'', liti ''secured'',
                        liti ''taken''])]"

definition pat_r_info :: rx where
  "pat_r_info =
     seqs [Grp 1 number, liti ''R'', Plus ws, Opt (seqs [liti ''profit'', Plus ws]),
           liti ''running'']"

definition pat_risk_free :: rx where
  "pat_risk_free =
     alts [seqs [liti ''risk'', Opt (Chr Dot), liti ''free''],
           seqs [liti ''move'', LazyStar Dot,
                 alts [liti ''sl'', seqs [liti ''stop'', LazyStar Dot, liti ''loss'']],
                 LazyStar Dot, alts [liti ''to'', liti ''at''], LazyStar Dot,
                 alts [liti ''entry'', liti ''breakeven'']],
           seqs [liti ''sl'', Opt (Chr Dot), liti ''to'', Opt (Chr Dot), liti ''breakeven''],
           seqs [liti ''trade'', Star Dot, liti ''risk'', Chr Dot, liti ''free''],
           seqs [liti ''moving'', LazyStar Dot, liti ''stop'', LazyStar Dot, liti ''to'',
                 LazyStar Dot, liti ''entry'']]"

definition pat_book_partial :: rx where
  "pat_book_partial =
     alts [seqs [liti ''book'', Plus ws, Grp 1 (Plus dg), Chr (LitC CHR ''%'')],
           seqs [liti ''take'', Plus ws, Grp 2 (Plus dg), Chr (LitC CHR ''%'')],
           seqs [liti ''partial'', Star Dot, Grp 3 (Plus dg), Chr (LitC CHR ''%'')]]"

definition pat_full_exit :: rx where
  "pat_full_exit =
     alts [seqs [liti ''clos'', alts [liti ''e'', liti ''ing''], Plus ws,
                 Opt (seqs [liti ''it'', Plus ws]), liti ''here''],
           liti ''exit'', liti ''out'', liti ''done'']"

text \<open>
  \<open>(?:<pointing hand>|<bullet>|-)\s*\$([A-Z]{2,10})\s*[<em dash><en dash>-]\s*(.+?)(?=\n|<pointing hand>|$)\<close>.
  The pointing hand, the bullet and the two long dashes lie beyond code point 255.
\<close>

definition pat_symbol_line :: rx where
  "pat_symbol_line =
     seqs [alts [Never, Never, lit ''-''], Star ws, lit ''$'', Grp 1 (Rep 2 10 (In upper_az)),
           Star ws, Chr (In ''-''), Star ws, Grp 2 (LazyPlus DotAll),
           LookAhead (alts [Chr (LitC (CHR 0x0A)), Never, EndLine])]"

definition pat_both_all :: rx where
  "pat_both_all =
     seqs [WordB, alts [liti ''both'', liti ''all''], Plus ws,
           alts [seqs [liti ''trade'', Opt (liti ''s'')], seqs [liti ''position'', Opt (liti ''s'')]],
           WordB]"

definition pat_let_cook :: rx where
  "pat_let_cook =
     alts [seqs [liti ''let'', Opt (liti ''ting''), Plus ws, Opt (seqs [liti ''the'', Plus ws]),
                 Opt (seqs [liti ''final'', Plus ws]), liti ''target'', Opt (liti ''s''), Plus ws,
                 liti ''cook''],
           liti ''patience'', liti ''hold'']"

text \<open>The two inline patterns of \<open>process_update_message\<close>, both \<open>re.IGNORECASE\<close>.\<close>

definition pat_dollar_symbol :: rx where
  "pat_dollar_symbol = seqs [lit ''$'', Grp 1 (Rep 2 10 az_i)]"

definition pat_bare_symbol :: rx where
  "pat_bare_symbol =
     seqs [Grp 1 (Rep 2 10 az_i),
           LookAhead (seqs [Star ws, Grp 2 (alts [liti ''UPDATE'', liti ''TRADE'', lit '':''])])]"

text \<open>
  \<open>pattern.finditer(text)\<close>: successive non-overlapping matches, left to right. After a
  match the scan resumes where it ended (one character further when nothing was consumed).
\<close>

function finditer_from :: "rx \<Rightarrow> char option \<Rightarrow> string \<Rightarrow> caps list" where
  "finditer_from r prev s =
     (case ms [r] prev s [] of
        Some (caps, rest) \<Rightarrow>
          (if length rest < length s
           then caps # finditer_from r (Some (last (take (length s - length rest) s))) rest
           else (case s of [] \<Rightarrow> [caps] | c # cs \<Rightarrow> caps # finditer_from r (Some c) cs))
      | None \<Rightarrow> (case s of [] \<Rightarrow> [] | c # cs \<Rightarrow> finditer_from r (Some c) cs))"
  by pat_completeness auto
termination
  by (relation "measure (\<lambda>(r, prev, s). length s)") auto

definition finditer :: "rx \<Rightarrow> string \<Rightarrow> caps list" where
  "finditer r s = finditer_from r None s"

section \<open>Position ledger and exchange\<close>

text \<open>
  One row of the \<open>trades\<close> table, with the columns the modelled code reads or writes.
  Columns the code guards against \<open>NULL\<close> are options; \<open>symbol\<close>, \<open>side\<close>, \<open>entry_price\<close>
  and \<open>quantity\<close> are always supplied by the one \<open>INSERT\<close> (\<open>_record_gauls_trade\<close>).
  Time stamps (\<open>exit_time\<close>) are left out. Field names carry the prefix \<open>t_\<close>.

  \<open>notes\<close> holds formatted text in the source; here it is the list of its parts.
\<close>

datatype action_type = RPartial real | BookPartial | MakeRiskFree | FullExit | RiskFreeGeneric

datatype note_item =
    Text string
  | ExchangeError string
  | FreeTradeNote
  | TpHitNote nat real
  | ClosedViaPartials
  | GaulsNote action_type
  | SlMovedNote
  | ClosedByUpdateNote

record trade =
  t_id :: nat
  t_symbol :: string
  t_side :: string
  t_entry_price :: real
  t_entry_time :: nat
  t_quantity :: real
  t_status :: string
  t_strategy :: string
  t_notes :: "note_item list option"
  t_stop_loss :: "real option"
  t_take_profit_1 :: "real option"
  t_take_profit_2 :: "real option"
  t_exit_price :: "real option"
  t_pnl :: "real option"
  t_original_quantity :: "real option"
  t_remaining_quantity :: "real option"
  t_partial_exits_done :: "nat option"
  t_partial_pnl :: "real option"

text \<open>
  One row of \<open>partial_exits\<close>. \<open>pe_origin\<close> stands for the columns \<open>tp_level\<close> and \<open>notes\<close>:
  the exit monitor writes a tier and a possible exchange error, the update processor the
  action type (from whose printed form the source derives \<open>tp_level\<close>).
\<close>

datatype pe_origin = Tier nat "string option" | Gauls action_type

record partial_exit =
  pe_trade_id :: nat
  pe_exit_price :: real
  pe_quantity_exited :: real
  pe_pnl :: real
  pe_origin :: pe_origin
  pe_new_stop_loss :: "real option"

record order =
  o_symbol :: string
  o_type :: string
  o_side :: string
  o_amount :: real
  o_price :: "real option"

text \<open>
  The world: the two tables of the position ledger and the orders submitted to the
  exchange client, in order. The exchange is an outside party: \<open>ex ord\<close> is its reply to
  \<open>ord\<close>, either the order dictionary it returns (of which only \<open>amount\<close> is read) or
  an exception with its message.
\<close>

datatype reply = Returned real | Raised string

record world =
  trades :: "trade list"
  partial_exits :: "partial_exit list"
  orders :: "order list"

type_synonym exchange = "order \<Rightarrow> reply"


text \<open>SQL arithmetic: \<open>NULL\<close> is contagious.\<close>

definition sql_add :: "real option \<Rightarrow> real \<Rightarrow> real option" where
  "sql_add a x = map_option (\<lambda>v. v + x) a"

definition sql_concat :: "note_item list option \<Rightarrow> note_item list \<Rightarrow> note_item list option" where
  "sql_concat a x = map_option (\<lambda>v. v @ x) a"

text \<open>\<open>SELECT ... WHERE id = ?\<close> with \<open>fetchone\<close>, and \<open>UPDATE ... WHERE id = ?\<close>.\<close>

definition select_trade :: "world \<Rightarrow> nat \<Rightarrow> trade option" where
  "select_trade w tid = find (\<lambda>r. t_id r = tid) (trades w)"

definition update_trade :: "nat \<Rightarrow> (trade \<Rightarrow> trade) \<Rightarrow> world \<Rightarrow> world" where
  "update_trade tid f w = w\<lparr>trades := map (\<lambda>r. if t_id r = tid then f r else r) (trades w)\<rparr>"

definition close_side :: "string \<Rightarrow> string" where
  "close_side sd = (if sd = ''buy'' then ''sell'' else ''buy'')"

definition market_order :: "string \<Rightarrow> string \<Rightarrow> real \<Rightarrow> order" where
  "market_order sy sd amt =
     \<lparr>o_symbol = sy, o_type = ''market'', o_side = sd, o_amount = amt, o_price = None\<rparr>"

text \<open>Submitting an order: it is logged, and the exchange's reply comes back.\<close>

definition place :: "exchange \<Rightarrow> order \<Rightarrow> world \<Rightarrow> reply \<times> world" where
  "place ex ord w = (ex ord, w\<lparr>orders := orders w @ [ord]\<rparr>)"


section \<open>Exit monitor (\<open>monitors/exit_monitor_v2.py\<close>)\<close>



definition pnl_per_unit :: "string \<Rightarrow> real \<Rightarrow> real \<Rightarrow> real" where
  "pnl_per_unit sd entry exit_price = (if sd = ''buy'' then exit_price - entry else entry - exit_price)"





section \<open>Update processor (\<open>processors/gauls_trade_update_processor.py\<close>)\<close>

text \<open>\<open>str(n)\<close> for integers.\<close>

fun str_nat :: "nat \<Rightarrow> string" where
  "str_nat n = (if n < 10 then [digits09 ! n] else str_nat (n div 10) @ [digits09 ! (n mod 10)])"

definition str_int :: "int \<Rightarrow> string" where
  "str_int i = (if i < 0 then ''-'' @ str_nat (nat (- i)) else str_nat (nat i))"

record symbol_data =
  sd_r_value :: "real option"
  sd_r_action :: "string option"
  sd_content :: "string option"

text \<open>\<open>updates[symbol] = v\<close> on an insertion-ordered dictionary.\<close>

definition dict_set :: "'k \<Rightarrow> 'v \<Rightarrow> ('k \<times> 'v) list \<Rightarrow> ('k \<times> 'v) list" where
  "dict_set k v d =
     (if List.member (map fst d) k then map (\<lambda>(k', v'). if k' = k then (k', v) else (k', v')) d
      else d @ [(k, v)])"

definition symbol_update_of :: "caps \<Rightarrow> string \<times> symbol_data" where
  "symbol_update_of m =
     (let symb = grp m 1; content = grp m 2 in
      case re_search pat_r_action content of
        Some rm \<Rightarrow>
          (symb, \<lparr>sd_r_value = py_float (grp rm 1),
                  sd_r_action = Some (map to_lower (grp rm 2)),
                  sd_content = Some content\<rparr>)
      | None \<Rightarrow>
          (case re_search pat_r_info content of
             Some rm \<Rightarrow>
               (symb, \<lparr>sd_r_value = py_float (grp rm 1), sd_r_action = Some ''running'',
                       sd_content = Some content\<rparr>)
           | None \<Rightarrow>
               (symb, \<lparr>sd_r_value = None, sd_r_action = None, sd_content = Some content\<rparr>)))"

definition extract_symbol_updates :: "string \<Rightarrow> (string \<times> symbol_data) list" where
  "extract_symbol_updates message_text =
     foldl (\<lambda>updates m. dict_set (fst (symbol_update_of m)) (snd (symbol_update_of m)) updates)
       [] (finditer pat_symbol_line message_text)"

record generic_instructions =
  all_risk_free :: bool
  let_cook :: bool
  no_partial_exit :: bool

definition extract_generic_instructions :: "string \<Rightarrow> generic_instructions" where
  "extract_generic_instructions message_text =
     (let has_risk_free = (re_search pat_risk_free message_text \<noteq> None);
          has_both_all = (re_search pat_both_all message_text \<noteq> None);
          cook = (re_search pat_let_cook message_text \<noteq> None)
      in \<lparr>all_risk_free = (has_risk_free \<and> has_both_all), let_cook = cook,
          no_partial_exit = cook\<rparr>)"

text \<open>An action dictionary; an absent key is \<open>None\<close>.\<close>

record action =
  a_type :: action_type
  a_partial_percent :: "int option"
  a_move_sl_to :: "string option"
  a_r_value :: "real option"

text \<open>The first group of a \<open>book_partial\<close> match that took part, as \<open>int\<close>.\<close>

definition booked_percent :: "caps \<Rightarrow> int option" where
  "booked_percent m =
     (case List.find (\<lambda>g. g \<noteq> None \<and> g \<noteq> Some [])
             [group m 1, group m 2, group m 3] of
        Some (Some g) \<Rightarrow> Some (int_of_digits g)
      | _ \<Rightarrow> None)"

definition risk_free_or_exit :: "string \<Rightarrow> action option" where
  "risk_free_or_exit message_text =
     (if re_search pat_risk_free message_text \<noteq> None
      then Some \<lparr>a_type = MakeRiskFree,
                 a_partial_percent = Option.bind (re_search pat_book_partial message_text)
                                       booked_percent,
                 a_move_sl_to = Some ''breakeven'', a_r_value = None\<rparr>
      else if re_search pat_full_exit message_text \<noteq> None
      then Some \<lparr>a_type = FullExit, a_partial_percent = Some 100, a_move_sl_to = None,
                 a_r_value = None\<rparr>
      else None)"

definition book_or_later :: "string \<Rightarrow> action option" where
  "book_or_later message_text =
     (case Option.bind (re_search pat_book_partial message_text) booked_percent of
        Some percent \<Rightarrow>
          if percent \<noteq> 0
          then Some \<lparr>a_type = BookPartial, a_partial_percent = Some percent,
                     a_move_sl_to = None, a_r_value = None\<rparr>
          else risk_free_or_exit message_text
      | None \<Rightarrow> risk_free_or_exit message_text)"

definition determine_action :: "string \<Rightarrow> action option" where
  "determine_action message_text =
     (case Option.bind (re_search pat_r_action message_text) (\<lambda>m. py_float (grp m 1)) of
        Some r_value \<Rightarrow>
          if r_value \<ge> 1 \<and> r_value < 2
          then Some \<lparr>a_type = RPartial r_value, a_partial_percent = Some 40,
                     a_move_sl_to = Some ''breakeven'', a_r_value = Some r_value\<rparr>
          else if r_value \<ge> 2
          then Some \<lparr>a_type = RPartial r_value, a_partial_percent = Some 30,
                     a_move_sl_to = None, a_r_value = Some r_value\<rparr>
          else book_or_later message_text
      | None \<Rightarrow> book_or_later message_text)"

definition determine_action_enhanced ::
  "string \<Rightarrow> symbol_data \<Rightarrow> generic_instructions \<Rightarrow> action option" where
  "determine_action_enhanced message_text sdata generic =
     (if all_risk_free generic
      then Some \<lparr>a_type = RiskFreeGeneric, a_partial_percent = None,
                 a_move_sl_to = Some ''breakeven'', a_r_value = None\<rparr>
      else determine_action message_text)"

text \<open>\<open>get_matching_trades\<close>: the open rows of the symbol opened by the copy trader.\<close>

definition get_matching_trades :: "world \<Rightarrow> string \<Rightarrow> trade list" where
  "get_matching_trades w sy =
     filter (\<lambda>r. t_symbol r = sy \<and> t_status r = ''open'' \<and> t_strategy r = ''gauls_copy'')
       (trades w)"

definition update_trade_partial :: "world \<Rightarrow> nat \<Rightarrow> real \<Rightarrow> real \<Rightarrow> action_type \<Rightarrow> world option" where
  "update_trade_partial w trade_id partial_qty exit_price atype =
     (case select_trade w trade_id of
        None \<Rightarrow> None
      | Some r \<Rightarrow>
          let pnl = pnl_per_unit (t_side r) (t_entry_price r) exit_price * partial_qty;
              w1 = w\<lparr>partial_exits := partial_exits w @
                     [\<lparr>pe_trade_id = trade_id, pe_exit_price = exit_price,
                       pe_quantity_exited = partial_qty, pe_pnl = pnl,
                       pe_origin = Gauls atype, pe_new_stop_loss = None\<rparr>]\<rparr>
          in Some (update_trade trade_id
                     (\<lambda>x. x\<lparr>t_remaining_quantity := sql_add (t_remaining_quantity x) (- partial_qty),
                             t_partial_exits_done := map_option Suc (t_partial_exits_done x),
                             t_partial_pnl := sql_add (t_partial_pnl x) pnl,
                             t_notes := sql_concat (t_notes x) [GaulsNote atype]\<rparr>) w1))"

text \<open>Breakeven including fees: 0.1% beyond the entry price.\<close>

definition breakeven_price :: "trade \<Rightarrow> real" where
  "breakeven_price trade = t_entry_price trade * (if t_side trade = ''buy'' then 1.001 else 0.999)"

definition move_stop_to_breakeven :: "world \<Rightarrow> trade \<Rightarrow> world" where
  "move_stop_to_breakeven w trade =
     update_trade (t_id trade)
       (\<lambda>x. x\<lparr>t_stop_loss := Some (breakeven_price trade),
               t_notes := sql_concat (t_notes x) [SlMovedNote]\<rparr>) w"

definition close_trade :: "world \<Rightarrow> nat \<Rightarrow> real \<Rightarrow> world" where
  "close_trade w trade_id exit_price =
     update_trade trade_id
       (\<lambda>x. x\<lparr>t_status := ''closed'', t_exit_price := Some exit_price,
               t_notes := sql_concat (t_notes x) [ClosedByUpdateNote]\<rparr>) w"

text \<open>
  \<open>execute_action\<close> on one row of \<open>get_matching_trades\<close> (which reads
  \<open>remaining_quantity\<close> as \<open>row[9] or row[4]\<close>). \<open>tick sy\<close> is the price the exchange
  reports for \<open>sy\<close>, \<open>None\<close> when fetching it raises. Any exception ends the action
  with \<open>False\<close>, leaving what was written before it.
\<close>

definition execute_action ::
  "exchange \<Rightarrow> (string \<Rightarrow> real option) \<Rightarrow> world \<Rightarrow> trade \<Rightarrow> action \<Rightarrow> bool \<times> world" where
  "execute_action ex tick w trade act =
     (let remaining_qty = (if truthy (t_remaining_quantity trade)
                           then the (t_remaining_quantity trade) else t_quantity trade);
          partial_percent = (case a_partial_percent act of None \<Rightarrow> 0 | Some n \<Rightarrow> n);
          partial_qty = remaining_qty * (of_int partial_percent / 100);
          sell = (\<lambda>amt. market_order (t_symbol trade) (close_side (t_side trade)) amt);
          finish = (\<lambda>w'. if a_move_sl_to act = Some ''breakeven''
                          then (True, move_stop_to_breakeven w' trade) else (True, w'))
      in if partial_qty > 0
         then (case tick (t_symbol trade) of
                 None \<Rightarrow> (False, w)
               | Some current_price \<Rightarrow>
                   if partial_percent < 100
                   then (case place ex (sell partial_qty) w of
                           (Raised _, w1) \<Rightarrow> (False, w1)
                         | (Returned _, w1) \<Rightarrow>
                             (case update_trade_partial w1 (t_id trade) partial_qty current_price
                                     (a_type act) of
                                None \<Rightarrow> (False, w1)
                              | Some w2 \<Rightarrow> finish w2))
                   else (case place ex (sell remaining_qty) w of
                           (Raised _, w1) \<Rightarrow> (False, w1)
                         | (Returned _, w1) \<Rightarrow> finish (close_trade w1 (t_id trade) current_price)))
         else finish w)"

text \<open>
  Processed-update markers. The in-memory set holds Python values: the integer that
  \<open>hash\<close> returned, or the text read back from the \<open>message_hash TEXT\<close> column.
\<close>

datatype pyval = PInt int | PStr string

record markers =
  processed_updates :: "pyval list"
  processed_table :: "(string \<times> string \<times> action_type) list"

definition mark_as_processed :: "int \<Rightarrow> string \<Rightarrow> action_type \<Rightarrow> markers \<Rightarrow> markers" where
  "mark_as_processed message_hash sy atype mk =
     mk\<lparr>processed_table :=
          (if List.member (map fst (processed_table mk)) (str_int message_hash)
           then processed_table mk
           else processed_table mk @ [(str_int message_hash, sy, atype)]),
        processed_updates := List.insert (PInt message_hash) (processed_updates mk)\<rparr>"

definition load_processed_updates :: "markers \<Rightarrow> markers" where
  "load_processed_updates mk =
     mk\<lparr>processed_updates := remdups (map (\<lambda>row. PStr (fst row)) (processed_table mk))\<rparr>"

text \<open>The single-symbol fallback of \<open>process_update_message\<close>.\<close>

definition fallback_symbol :: "string \<Rightarrow> string option" where
  "fallback_symbol message_text =
     (case re_search pat_dollar_symbol message_text of
        Some m \<Rightarrow> Some (grp m 1)
      | None \<Rightarrow> map_option (\<lambda>m. grp m 1) (re_search pat_bare_symbol message_text))"

definition apply_to_trades ::
  "exchange \<Rightarrow> (string \<Rightarrow> real option) \<Rightarrow> int \<Rightarrow> string \<Rightarrow> action \<Rightarrow> trade list
     \<Rightarrow> world \<times> markers \<Rightarrow> world \<times> markers" where
  "apply_to_trades ex tick message_hash symbol_usdt act ts st =
     foldl (\<lambda>(w, mk) trade.
              case execute_action ex tick w trade act of
                (True, w') \<Rightarrow> (w', mark_as_processed message_hash symbol_usdt (a_type act) mk)
              | (False, w') \<Rightarrow> (w', mk))
       st ts"

definition process_symbol ::
  "exchange \<Rightarrow> (string \<Rightarrow> real option) \<Rightarrow> string \<Rightarrow> int \<Rightarrow> generic_instructions
     \<Rightarrow> world \<times> markers \<Rightarrow> string \<times> symbol_data \<Rightarrow> world \<times> markers" where
  "process_symbol ex tick message_text message_hash generic st entry =
     (let symbol_usdt = fst entry @ ''/USDT'';
          ts = get_matching_trades (fst st) symbol_usdt
      in if ts = [] then st
         else (case determine_action_enhanced message_text (snd entry) generic of
                 None \<Rightarrow> st
               | Some act \<Rightarrow> apply_to_trades ex tick message_hash symbol_usdt act ts st))"

text \<open>
  The symbols an update message addresses: the bulleted symbol lines, or else the single
  symbol of the fallback patterns.
\<close>

definition symbol_updates_of :: "string \<Rightarrow> (string \<times> symbol_data) list" where
  "symbol_updates_of message_text =
     (let found = extract_symbol_updates message_text
      in if found \<noteq> [] then found
         else case fallback_symbol message_text of
                None \<Rightarrow> []
              | Some symb \<Rightarrow> [(symb, \<lparr>sd_r_value = None, sd_r_action = None,
                                      sd_content = None\<rparr>)])"

definition process_update_message ::
  "exchange \<Rightarrow> (string \<Rightarrow> real option) \<Rightarrow> world \<times> markers \<Rightarrow> string \<Rightarrow> int
     \<Rightarrow> world \<times> markers" where
  "process_update_message ex tick st message_text message_hash =
     foldl (process_symbol ex tick message_text message_hash
              (extract_generic_instructions message_text))
       st (symbol_updates_of message_text)"

text \<open>
  \<open>scan_for_updates\<close> over the fetched \<open>messages\<close> (text and integer time stamp);
  \<open>py_hash\<close> is the built-in \<open>hash\<close> on strings of the running process.
\<close>

definition scan_for_updates ::
  "(string \<Rightarrow> int) \<Rightarrow> exchange \<Rightarrow> (string \<Rightarrow> real option) \<Rightarrow> (string \<times> int) list
     \<Rightarrow> world \<times> markers \<Rightarrow> world \<times> markers" where
  "scan_for_updates py_hash ex tick messages st =
     foldl (\<lambda>st (message_text, timestamp).
              let message_hash = py_hash (message_text @ ''_'' @ str_int timestamp)
              in if \<not> List.member (processed_updates (snd st)) (PInt message_hash)
                 then process_update_message ex tick st message_text message_hash
                 else st)
       st messages"

section \<open>Copy trader (\<open>core/gauls_copy_trader.py\<close>)\<close>

definition MAX_LOSS_PER_TRADE_EUR :: real where
  "MAX_LOSS_PER_TRADE_EUR = 25"

definition GAULS_LEVERAGE :: real where
  "GAULS_LEVERAGE = 10"

definition MARGIN_USAGE_PCT :: real where
  "MARGIN_USAGE_PCT = 0.9"

subsection \<open>Position sizing\<close>

text \<open>
  The sizing block of \<open>execute_gauls_signal\<close>, from the risk per unit to the size
  modifier. \<open>scaled_down\<close> records that the margin warning was logged.
\<close>

datatype sizing_error = InvalidStop | ZeroDivision

record sizing =
  quantity :: real
  actual_risk :: real
  margin_required :: real
  scaled_down :: bool

definition position_sizing :: "real \<Rightarrow> real \<Rightarrow> real \<Rightarrow> real \<Rightarrow> sizing_error + sizing" where
  "position_sizing execution_price stop available position_modifier =
     (let risk_per_unit = \<bar>execution_price - stop\<bar> in
      if risk_per_unit = 0 then Inl InvalidStop
      else
        let max_units = MAX_LOSS_PER_TRADE_EUR / risk_per_unit;
            leverage = GAULS_LEVERAGE;
            position_value = max_units * execution_price;
            margin = position_value / leverage
        in if margin > available
           then (if execution_price = 0 then Inl ZeroDivision
                 else
                   let affordable_margin = available * MARGIN_USAGE_PCT;
                       position_value' = affordable_margin * leverage;
                       max_units' = position_value' / execution_price;
                       risk = max_units' * risk_per_unit
                   in Inr (if position_modifier \<noteq> 1
                           then \<lparr>quantity = max_units' * position_modifier,
                                 actual_risk = risk * position_modifier,
                                 margin_required = margin, scaled_down = True\<rparr>
                           else \<lparr>quantity = max_units', actual_risk = risk,
                                 margin_required = margin, scaled_down = True\<rparr>))
           else Inr (if position_modifier \<noteq> 1
                     then \<lparr>quantity = max_units * position_modifier,
                           actual_risk = MAX_LOSS_PER_TRADE_EUR * position_modifier,
                           margin_required = margin, scaled_down = False\<rparr>
                     else \<lparr>quantity = max_units, actual_risk = MAX_LOSS_PER_TRADE_EUR,
                           margin_required = margin, scaled_down = False\<rparr>))"

subsection \<open>Processed signals\<close>

text \<open>
  A signal as \<open>scan_for_new_signals\<close> hands it on: the parsed signal with the id and time
  stamp of the message it came from. One row of \<open>processed_gauls_signals\<close> has the
  columns the two queries name. \<open>md5\<close> is \<open>hashlib.md5(text.encode()).hexdigest()\<close>.
\<close>

record gsignal = signal +
  insight_id :: "nat option"
  timestamp :: "string option"

record processed_signal =
  ps_signal_id :: "nat option"
  ps_symbol :: string
  ps_signal_timestamp :: string
  ps_signal_hash :: string
  ps_raw_text :: string
  ps_trade_ids :: string

definition signal_timestamp :: "gsignal \<Rightarrow> string" where
  "signal_timestamp sg = (case timestamp sg of None \<Rightarrow> [] | Some ts \<Rightarrow> ts)"

definition is_signal_already_processed ::
  "(string \<Rightarrow> string) \<Rightarrow> processed_signal list \<Rightarrow> gsignal \<Rightarrow> bool" where
  "is_signal_already_processed md5 rows sg =
     list_ex (\<lambda>r. ps_signal_hash r = md5 (raw_text sg) \<or>
                   (ps_symbol r = symbol sg \<and> ps_signal_timestamp r = signal_timestamp sg))
       rows"

text \<open>\<open>INSERT OR IGNORE\<close>: the row is dropped when its \<open>signal_hash\<close> is already there.\<close>

definition record_processed_signal ::
  "(string \<Rightarrow> string) \<Rightarrow> gsignal \<Rightarrow> nat option \<Rightarrow> processed_signal list \<Rightarrow> processed_signal list" where
  "record_processed_signal md5 sg trade_id rows =
     (if list_ex (\<lambda>r. ps_signal_hash r = md5 (raw_text sg)) rows then rows
      else rows @ [\<lparr>ps_signal_id = insight_id sg, ps_symbol = symbol sg,
                     ps_signal_timestamp = signal_timestamp sg,
                     ps_signal_hash = md5 (raw_text sg), ps_raw_text = raw_text sg,
                     ps_trade_ids = (case trade_id of None \<Rightarrow> []
                                     | Some i \<Rightarrow> if i = 0 then [] else str_nat i)\<rparr>])"

subsection \<open>Executing a signal\<close>

text \<open>
  What the trader holds: the world, the processed-signal table and the keys of the
  in-memory positions map. What it asks of others is in \<open>env\<close>: the clock, the ticker,
  the free balance, the enrichment service (execution plan and entry adjustment) and the
  exchange; \<open>None\<close> is a call that raises.
\<close>

record trader =
  tw :: world
  processed :: "processed_signal list"
  positions :: "string list"

record env =
  now :: nat
  ticker :: "string \<Rightarrow> real option"
  balance_free :: "real option"
  llm_plan :: "gsignal \<Rightarrow> (bool \<times> real) option"
  llm_entry :: "gsignal \<Rightarrow> real \<Rightarrow> real option"
  exch :: exchange

definition has_recent_trade :: "nat \<Rightarrow> world \<Rightarrow> string \<Rightarrow> bool" where
  "has_recent_trade clock w sy =
     list_ex (\<lambda>r. t_symbol r = sy \<and> t_strategy r = ''gauls_copy'' \<and>
                   t_entry_time r + 300 > clock \<and> t_status r = ''open'')
       (trades w)"

definition signal_key :: "gsignal \<Rightarrow> string" where
  "signal_key sg = symbol sg @ ''_'' @ (case insight_id sg of None \<Rightarrow> [] | Some i \<Rightarrow> str_nat i)"

definition hint_truthy :: "hint option \<Rightarrow> bool" where
  "hint_truthy h = (case h of None \<Rightarrow> False | Some (HintText t) \<Rightarrow> t \<noteq> []
                    | Some (Conservative _ _) \<Rightarrow> True)"

definition next_trade_id :: "world \<Rightarrow> nat" where
  "next_trade_id w = Suc (foldl max 0 (map t_id (trades w)))"

text \<open>
  \<open>_record_gauls_trade\<close>: one \<open>INSERT\<close> into \<open>trades\<close>, then the processed marker. Columns
  the \<open>INSERT\<close> does not name take the defaults of the table (\<open>partial_exits_done\<close> and
  \<open>partial_pnl\<close> zero, the rest \<open>NULL\<close>).
\<close>

definition record_gauls_trade ::
  "(string \<Rightarrow> string) \<Rightarrow> nat \<Rightarrow> gsignal \<Rightarrow> real \<Rightarrow> real \<Rightarrow> string \<Rightarrow> trader \<Rightarrow> trader" where
  "record_gauls_trade md5 clock sg amount entry status st =
     (let tid = next_trade_id (tw st);
          tp1 = (if truthy (take_profit sg) then take_profit sg else Some 0);
          row = \<lparr>t_id = tid, t_symbol = symbol sg, t_side = side sg, t_entry_price = entry,
                 t_entry_time = clock, t_quantity = amount, t_status = status,
                 t_strategy = ''gauls_copy'', t_notes = Some [Text ''Gauls Copy Trade''],
                 t_stop_loss = stop_loss sg, t_take_profit_1 = tp1, t_take_profit_2 = Some 0,
                 t_exit_price = None, t_pnl = None, t_original_quantity = None,
                 t_remaining_quantity = Some amount, t_partial_exits_done = Some 0,
                 t_partial_pnl = Some 0\<rparr>
      in st\<lparr>tw := (tw st)\<lparr>trades := trades (tw st) @ [row]\<rparr>,
            processed := record_processed_signal md5 sg (Some tid) (processed st)\<rparr>)"

text \<open>
  The part of \<open>execute_gauls_signal\<close> after the three duplicate checks: plan, entry,
  order type, sizing, order, ledger. The result is the order placed, if any.
\<close>

definition place_signal_order ::
  "(string \<Rightarrow> string) \<Rightarrow> env \<Rightarrow> trader \<Rightarrow> gsignal \<Rightarrow> order option \<times> trader" where
  "place_signal_order md5 e st sg =
     (case (if entry_type sg = Market then Some (True, 1) else llm_plan e sg) of
        None \<Rightarrow> (None, st)
      | Some (should_execute, position_modifier) \<Rightarrow>
          if \<not> should_execute then (None, st)
          else
            (case ticker e (symbol sg) of
               None \<Rightarrow> (None, st)
             | Some current_price \<Rightarrow>
                 (case (if entry_type sg = Market then Some current_price
                        else if hint_truthy (entry_hint sg) then llm_entry e sg current_price
                        else entry_price sg) of
                    None \<Rightarrow> (None, st)
                  | Some target_entry \<Rightarrow>
                      if entry_type sg \<noteq> Market \<and> target_entry = 0 then (None, st)
                      else
                        let price_difference_pct =
                              \<bar>current_price - target_entry\<bar> / target_entry * 100;
                            use_limit =
                              (entry_type sg = Limit \<and> price_difference_pct > 1 \<and>
                               ((side sg = ''buy'' \<and> current_price > target_entry) \<or>
                                (side sg = ''sell'' \<and> current_price < target_entry)));
                            order_type = (if use_limit then ''limit'' else ''market'');
                            execution_price = (if use_limit then target_entry else current_price)
                        in if \<not> truthy (stop_loss sg) then (None, st)
                           else
                             (case balance_free e of
                                None \<Rightarrow> (None, st)
                              | Some available \<Rightarrow>
                                  (case position_sizing execution_price (the (stop_loss sg))
                                          available position_modifier of
                                     Inl _ \<Rightarrow> (None, st)
                                   | Inr sz \<Rightarrow>
                                       let req = \<lparr>o_symbol = symbol sg, o_type = order_type,
                                                  o_side = side sg, o_amount = quantity sz,
                                                  o_price = Some execution_price\<rparr>
                                       in (case place (exch e) req (tw st) of
                                             (Raised _, w1) \<Rightarrow> (None, st\<lparr>tw := w1\<rparr>)
                                           | (Returned amount, w1) \<Rightarrow>
                                               let st1 = record_gauls_trade md5 (now e) sg amount
                                                           execution_price
                                                           (if use_limit then ''pending''
                                                            else ''open'')
                                                           (st\<lparr>tw := w1\<rparr>)
                                               in (Some (req\<lparr>o_amount := amount\<rparr>),
                                                   st1\<lparr>positions :=
                                                         List.insert (signal_key sg)
                                                           (positions st1)\<rparr>)))))))"

definition execute_gauls_signal ::
  "(string \<Rightarrow> string) \<Rightarrow> env \<Rightarrow> trader \<Rightarrow> gsignal \<Rightarrow> order option \<times> trader" where
  "execute_gauls_signal md5 e st sg =
     (if is_signal_already_processed md5 (processed st) sg then (None, st)
      else if has_recent_trade (now e) (tw st) (symbol sg) then (None, st)
      else if List.member (positions st) (signal_key sg)
      then (None, st\<lparr>processed := record_processed_signal md5 sg None (processed st)\<rparr>)
      else place_signal_order md5 e st sg)"

section \<open>Example positions\<close>







section \<open>Properties of the signal parser\<close>

text \<open>
  Claim C8, as stated, fails: the entry pattern knows \<open>down to\<close>, not \<open>till\<close>, so the
  text of scenario B is parsed as an immediate market entry without an entry price.
\<close>

theorem sei_till_is_market_entry:
  "map_option (\<lambda>sg. (entry_type sg, entry_price sg))
     (parse_signal ''$SEI Spot/Swing Buying Setup: Entry: CMP till 2780 TP: 0.43 SL: 0.26'')
   = Some (Market, None)"
  by code_simp

text \<open>
  Claim C8, amended: the text yields symbol SEI/USDT, take_profit 0.43, stop_loss 0.26 and
  a market entry with no entry price. The conservative buffer belongs to
  \<open>CMP down to <price>\<close>: with \<open>down to 2780\<close> in place of \<open>till 2780\<close> the entry is a
  limit at 2780 * 1.0063.
\<close>

theorem sei_scenario_parsed:
  "parse_signal ''$SEI Spot/Swing Buying Setup: Entry: CMP till 2780 TP: 0.43 SL: 0.26''
     = Some ((initial_signal ''SEI''
                ''$SEI Spot/Swing Buying Setup: Entry: CMP till 2780 TP: 0.43 SL: 0.26'')
              \<lparr>stop_loss := Some 0.26, take_profit := Some 0.43\<rparr>)
   \<and> parse_signal ''$SEI Spot/Swing Buying Setup: Entry: CMP down to 2780 TP: 0.43 SL: 0.26''
     = Some ((initial_signal ''SEI''
                ''$SEI Spot/Swing Buying Setup: Entry: CMP down to 2780 TP: 0.43 SL: 0.26'')
              \<lparr>entry_price := Some (2780 * 1.0063), entry_type := Limit,
               entry_hint := Some (Conservative (2780 * 1.0063) 2780),
               stop_loss := Some 0.26, take_profit := Some 0.43,
               original_target := Some 2780\<rparr>)"
  by code_simp












section \<open>Properties of position sizing\<close>





section \<open>Properties of the exit monitor\<close>



lemma select_trade_id: "select_trade w tid = Some r \<Longrightarrow> t_id r = tid"
  unfolding select_trade_def by (auto simp: find_Some_iff)

lemma update_trade_others [simp]:
  "partial_exits (update_trade tid f w) = partial_exits w"
  "orders (update_trade tid f w) = orders w"
  by (simp_all add: update_trade_def)

lemma select_trade_cong:
  "trades w' = trades w \<Longrightarrow> select_trade w' tid = select_trade w tid"
  by (simp add: select_trade_def)







end
